theory Spec2Isabelle
  imports Complex_Main "HOL-Library.AList" "HOL-Library.Sublist" "HOL-Library.Word"
begin

section \<open>The tools of mcp-node-fetch\<close>

text \<open>
  The server (\<^verbatim>\<open>src/index.ts\<close>, the last and complete version of the three in
  \<^verbatim>\<open>src/src/index.js\<close>) answers three tool calls: \<^verbatim>\<open>fetch-url\<close>,
  \<^verbatim>\<open>extract-html-fragment\<close> and \<^verbatim>\<open>check-status\<close>. Each handler builds an options
  object, awaits one \<^verbatim>\<open>fetch(url, options)\<close> of undici, converts the response, and wraps
  everything in one \<^verbatim>\<open>try\<close>/\<^verbatim>\<open>catch\<close> that turns a thrown error into an
  \<^verbatim>\<open>isError\<close> result.

  The handlers are embedded as pure functions. What the handlers take from their
  libraries (undici's \<^verbatim>\<open>fetch\<close>, jsdom's document and selector functions,
  \<^verbatim>\<open>JSON.stringify\<close>, \<^verbatim>\<open>Buffer\<close>) is a parameter, collected in the record
  \<open>env\<close>. A thrown \<^verbatim>\<open>Error\<close> is the left summand of a sum, carrying the error's
  message. The writes to \<^verbatim>\<open>console.error\<close> go to the log only and are left out.
\<close>

subsection \<open>Arguments, options, responses\<close>

datatype http_method = GET | POST | PUT | DELETE | HEAD | OPTIONS | PATCH

datatype response_type = Text | Json | Binary | HtmlFragment

datatype redirect_mode = Follow | Manual

type_synonym header_list = "(string \<times> string) list"

text \<open>The arguments after the zod schemas have parsed them: defaults are filled in,
  optional arguments are \<open>None\<close> when left out.\<close>

record fetch_url_args =
  fu_url :: string
  fu_method :: http_method
  fu_headers :: "header_list option"
  fu_body :: "string option"
  fu_timeout :: "real option"
  fu_responseType :: response_type
  fu_followRedirects :: bool
  fu_fragmentSelector :: "string option"

record extract_args =
  ex_url :: string
  ex_selector :: string
  ex_anchorId :: "string option"
  ex_method :: http_method
  ex_headers :: "header_list option"
  ex_body :: "string option"
  ex_timeout :: "real option"
  ex_followRedirects :: bool

record check_status_args =
  cs_url :: string
  cs_timeout :: "real option"

text \<open>The options object handed to \<^verbatim>\<open>fetch\<close>. A property the handler does not set is
  \<open>None\<close>.\<close>

record request_options =
  opt_method :: "http_method option"
  opt_headers :: "header_list option"
  opt_body :: "string option"
  opt_redirect :: "redirect_mode option"
  opt_bodyTimeout :: "real option"
  opt_headersTimeout :: "real option"

text \<open>
  The \<^verbatim>\<open>Response\<close> object of undici. \<open>r_text\<close>, \<open>r_json\<close> and \<open>r_arrayBuffer\<close> are
  the outcomes of awaiting \<^verbatim>\<open>response.text()\<close>, \<^verbatim>\<open>response.json()\<close> and
  \<^verbatim>\<open>response.arrayBuffer()\<close>: the value, or the message of the error the call throws
  (a read that fails or times out, a body that is not JSON). Every handler calls at most
  one of them, once. \<open>r_headers\<close> is \<^verbatim>\<open>response.headers.entries()\<close>.
\<close>

record 'json response =
  r_status :: nat
  r_statusText :: string
  r_headers :: header_list
  r_url :: string
  r_text :: "string + string"
  r_json :: "string + 'json"
  r_arrayBuffer :: "string + 8 word list"

text \<open>\<^verbatim>\<open>response.ok\<close> is a getter of the Response class (Fetch Standard; undici
  computes it as \<^verbatim>\<open>status >= 200 && status <= 299\<close>): the status is an ok status.\<close>

definition ok :: "('json, 'x) response_scheme \<Rightarrow> bool" where
  "ok r = (200 \<le> r_status r \<and> r_status r \<le> 299)"

text \<open>The library functions the handlers call.\<close>

record ('doc, 'el, 'json) env =
  fetch :: "string \<Rightarrow> request_options \<Rightarrow> string + 'json response"
  JSDOM :: "string \<Rightarrow> 'doc"
  querySelectorAll :: "'doc \<Rightarrow> string \<Rightarrow> string + 'el list"
  getElementById :: "'doc \<Rightarrow> string \<Rightarrow> 'el option"
  outerHTML :: "'el \<Rightarrow> string"
  JSON_stringify :: "'json \<Rightarrow> string"
  toBase64 :: "8 word list \<Rightarrow> string"

subsection \<open>Results\<close>

text \<open>The \<^verbatim>\<open>result\<close> object of each handler before \<^verbatim>\<open>JSON.stringify(result, null, 2)\<close>
  makes it the text of the reply. A property that was never assigned is \<open>None\<close>.\<close>

record fetch_result =
  res_status :: nat
  res_statusText :: string
  res_headers :: header_list
  res_url :: string
  res_content :: string
  res_encoding :: "string option"
  res_matchCount :: "nat option"
  res_contentType :: "string option"

datatype html_value = HtmlString string | HtmlArray "string list"

record fragment_result =
  fr_status :: nat
  fr_statusText :: string
  fr_url :: string
  fr_selector :: string
  fr_matchCount :: nat
  fr_html :: html_value

record status_result =
  st_status :: nat
  st_statusText :: string
  st_headers :: header_list
  st_url :: string
  st_isAvailable :: bool

text \<open>A \<^verbatim>\<open>CallToolResult\<close>: \<open>Inl t\<close> is \<^verbatim>\<open>{isError: true, content: [{type: "text", text: t}]}\<close>,
  \<open>Inr r\<close> is the reply whose text is the serialised result \<open>r\<close>.\<close>

type_synonym 'a call_tool_result = "string + 'a"

subsection \<open>JavaScript helpers\<close>

text \<open>Truthiness of an optional string and of an optional number (zod admits no NaN):
  \<^verbatim>\<open>undefined\<close>, the empty string and zero are falsy.\<close>

definition truthy_string :: "string option \<Rightarrow> bool" where
  "truthy_string s = (case s of None \<Rightarrow> False | Some v \<Rightarrow> v \<noteq> [])"

definition truthy_number :: "real option \<Rightarrow> bool" where
  "truthy_number t = (case t of None \<Rightarrow> False | Some v \<Rightarrow> v \<noteq> 0)"

text \<open>\<^verbatim>\<open>body || undefined\<close> and \<^verbatim>\<open>headers || {}\<close> (an object is always truthy).\<close>

definition or_undefined :: "string option \<Rightarrow> string option" where
  "or_undefined b = (if truthy_string b then b else None)"

definition or_empty :: "header_list option \<Rightarrow> header_list" where
  "or_empty h = (case h of None \<Rightarrow> [] | Some v \<Rightarrow> v)"

text \<open>\<^verbatim>\<open>Object.fromEntries\<close>: a later entry of a name replaces the value of the earlier
  one.\<close>

definition fromEntries :: "header_list \<Rightarrow> header_list" where
  "fromEntries es = foldl (\<lambda>acc (k, v). AList.update k v acc) [] es"

text \<open>\<^verbatim>\<open>Array.prototype.join\<close>.\<close>

fun join :: "string \<Rightarrow> string list \<Rightarrow> string" where
  "join sep [] = []"
| "join sep [x] = x"
| "join sep (x # y # ys) = x @ sep @ join sep (y # ys)"

text \<open>A number in a template literal: the decimal digits of a status code.\<close>

definition digit :: "nat \<Rightarrow> char" where
  "digit d = ''0123456789'' ! d"

fun dec :: "nat \<Rightarrow> string" where
  "dec n = (if n < 10 then [digit n] else dec (n div 10) @ [digit (n mod 10)])"

declare dec.simps [simp del]

definition quote :: string where
  "quote = [CHR 0x22]"

definition newline :: string where
  "newline = [CHR 0x0A]"

subsection \<open>fetch-url\<close>

text \<open>The options literal of \<^verbatim>\<open>handleFetchUrl\<close> and the \<^verbatim>\<open>if (timeout)\<close> after it.\<close>

definition fetchUrlOptions :: "fetch_url_args \<Rightarrow> request_options" where
  "fetchUrlOptions args =
     (let options = \<lparr>opt_method = Some (fu_method args),
                     opt_headers = Some (or_empty (fu_headers args)),
                     opt_body = or_undefined (fu_body args),
                     opt_redirect = Some (if fu_followRedirects args then Follow else Manual),
                     opt_bodyTimeout = None,
                     opt_headersTimeout = None\<rparr>
      in if truthy_number (fu_timeout args)
         then options\<lparr>opt_bodyTimeout := fu_timeout args, opt_headersTimeout := fu_timeout args\<rparr>
         else options)"

text \<open>The metadata every fetch-url result starts from, with its content.\<close>

definition metadata :: "'json response \<Rightarrow> string \<Rightarrow> fetch_result" where
  "metadata r c =
     \<lparr>res_status = r_status r, res_statusText = r_statusText r,
      res_headers = fromEntries (r_headers r), res_url = r_url r,
      res_content = c, res_encoding = None, res_matchCount = None, res_contentType = None\<rparr>"

text \<open>The \<^verbatim>\<open>html-fragment\<close> case of the switch, inside its own \<^verbatim>\<open>try\<close>: the value, or
  the message of the error thrown inside.\<close>

definition htmlFragmentCase ::
  "('doc, 'el, 'json) env \<Rightarrow> fetch_url_args \<Rightarrow> 'json response \<Rightarrow> string + fetch_result" where
  "htmlFragmentCase e args r =
     (case r_text r of
        Inl m \<Rightarrow> Inl m
      | Inr htmlContent \<Rightarrow>
          (let document = JSDOM e htmlContent in
           if truthy_string (fu_fragmentSelector args)
           then (let sel = the (fu_fragmentSelector args) in
                 case querySelectorAll e document sel of
                   Inl m \<Rightarrow> Inl m
                 | Inr elements \<Rightarrow>
                     if length elements = 0
                     then Inl (''No elements found matching selector '' @ quote @ sel @ quote)
                     else Inr ((metadata r
                                 (if length elements = 1 then outerHTML e (elements ! 0)
                                  else join newline (map (outerHTML e) elements)))
                               \<lparr>res_matchCount := Some (length elements),
                                res_contentType := Some ''text/html''\<rparr>))
           else Inr ((metadata r htmlContent)\<lparr>res_contentType := Some ''text/html''\<rparr>)))"

text \<open>The switch on \<^verbatim>\<open>responseType\<close>.\<close>

definition processResponse ::
  "('doc, 'el, 'json) env \<Rightarrow> fetch_url_args \<Rightarrow> 'json response \<Rightarrow> string + fetch_result" where
  "processResponse e args r =
     (case fu_responseType args of
        Json \<Rightarrow>
          (case r_json r of
             Inl m \<Rightarrow> Inl (''Failed to parse response as JSON: '' @ m)
           | Inr jsonContent \<Rightarrow> Inr (metadata r (JSON_stringify e jsonContent)))
      | Binary \<Rightarrow>
          (case r_arrayBuffer r of
             Inl m \<Rightarrow> Inl m
           | Inr buffer \<Rightarrow> Inr ((metadata r (toBase64 e buffer))\<lparr>res_encoding := Some ''base64''\<rparr>))
      | HtmlFragment \<Rightarrow>
          (case htmlFragmentCase e args r of
             Inl m \<Rightarrow> Inl (''Failed to parse or extract HTML fragment: '' @ m)
           | Inr res \<Rightarrow> Inr res)
      | Text \<Rightarrow>
          (case r_text r of
             Inl m \<Rightarrow> Inl m
           | Inr t \<Rightarrow> Inr (metadata r t)))"

definition handleFetchUrl ::
  "('doc, 'el, 'json) env \<Rightarrow> fetch_url_args \<Rightarrow> fetch_result call_tool_result" where
  "handleFetchUrl e args =
     (case fetch e (fu_url args) (fetchUrlOptions args) of
        Inl m \<Rightarrow> Inl (''Error fetching URL: '' @ m)
      | Inr response \<Rightarrow>
          (case processResponse e args response of
             Inl m \<Rightarrow> Inl (''Error fetching URL: '' @ m)
           | Inr result \<Rightarrow> Inr result))"

subsection \<open>extract-html-fragment\<close>

definition extractOptions :: "extract_args \<Rightarrow> request_options" where
  "extractOptions args =
     (let options = \<lparr>opt_method = Some (ex_method args),
                     opt_headers = Some (or_empty (ex_headers args)),
                     opt_body = or_undefined (ex_body args),
                     opt_redirect = Some (if ex_followRedirects args then Follow else Manual),
                     opt_bodyTimeout = None,
                     opt_headersTimeout = None\<rparr>
      in if truthy_number (ex_timeout args)
         then options\<lparr>opt_bodyTimeout := ex_timeout args, opt_headersTimeout := ex_timeout args\<rparr>
         else options)"

text \<open>The body of the \<^verbatim>\<open>try\<close> once the response is there.\<close>

definition extractFromResponse ::
  "('doc, 'el, 'json) env \<Rightarrow> extract_args \<Rightarrow> 'json response \<Rightarrow> string + fragment_result" where
  "extractFromResponse e args response =
     (if \<not> ok response
      then Inl (''Failed to fetch URL: HTTP '' @ dec (r_status response) @ '' '' @ r_statusText response)
      else case r_text response of
        Inl m \<Rightarrow> Inl m
      | Inr html \<Rightarrow>
          (let document = JSDOM e html in
           if truthy_string (ex_anchorId args) \<and>
              getElementById e document (the (ex_anchorId args)) = None
           then Inl (''Anchor element with ID '' @ quote @ the (ex_anchorId args) @ quote @ '' not found'')
           else case querySelectorAll e document (ex_selector args) of
             Inl m \<Rightarrow> Inl m
           | Inr elements \<Rightarrow>
               if length elements = 0
               then Inl (''No elements found matching selector '' @ quote @ ex_selector args @ quote)
               else Inr \<lparr>fr_status = r_status response,
                         fr_statusText = r_statusText response,
                         fr_url = r_url response,
                         fr_selector = ex_selector args,
                         fr_matchCount = length elements,
                         fr_html = (if length elements = 1
                                    then HtmlString (outerHTML e (elements ! 0))
                                    else HtmlArray (map (outerHTML e) elements))\<rparr>))"

definition handleExtractHtmlFragment ::
  "('doc, 'el, 'json) env \<Rightarrow> extract_args \<Rightarrow> fragment_result call_tool_result" where
  "handleExtractHtmlFragment e args =
     (case fetch e (ex_url args) (extractOptions args) of
        Inl m \<Rightarrow> Inl (''Error extracting HTML fragment: '' @ m)
      | Inr response \<Rightarrow>
          (case extractFromResponse e args response of
             Inl m \<Rightarrow> Inl (''Error extracting HTML fragment: '' @ m)
           | Inr result \<Rightarrow> Inr result))"

subsection \<open>check-status\<close>

definition checkStatusOptions :: "check_status_args \<Rightarrow> request_options" where
  "checkStatusOptions args =
     (let options = \<lparr>opt_method = Some HEAD, opt_headers = None, opt_body = None,
                     opt_redirect = None, opt_bodyTimeout = None, opt_headersTimeout = None\<rparr>
      in if truthy_number (cs_timeout args)
         then options\<lparr>opt_headersTimeout := cs_timeout args\<rparr>
         else options)"

definition handleCheckStatus ::
  "('doc, 'el, 'json) env \<Rightarrow> check_status_args \<Rightarrow> status_result call_tool_result" where
  "handleCheckStatus e args =
     (case fetch e (cs_url args) (checkStatusOptions args) of
        Inl m \<Rightarrow> Inl (''Error checking URL status: '' @ m)
      | Inr response \<Rightarrow>
          Inr \<lparr>st_status = r_status response,
               st_statusText = r_statusText response,
               st_headers = fromEntries (r_headers response),
               st_url = r_url response,
               st_isAvailable = ok response\<rparr>)"

subsection \<open>What undici's fetch reads of the options\<close>

text \<open>
  The second argument of undici's \<^verbatim>\<open>fetch\<close> is a \<^verbatim>\<open>RequestInit\<close>: \<^verbatim>\<open>fetch\<close> reads its
  members (\<^verbatim>\<open>method\<close>, \<^verbatim>\<open>headers\<close>, \<^verbatim>\<open>body\<close>, \<^verbatim>\<open>redirect\<close> among them) and no other
  property of the object. \<^verbatim>\<open>bodyTimeout\<close> and \<^verbatim>\<open>headersTimeout\<close> are options of undici's
  dispatchers (\<^verbatim>\<open>Agent\<close>, \<^verbatim>\<open>Client\<close>, \<^verbatim>\<open>request\<close>), not members of \<^verbatim>\<open>RequestInit\<close>; the
  handlers set them under \<^verbatim>\<open>@ts-ignore\<close>. \<open>RequestInit\<close> is the options object as
  \<^verbatim>\<open>fetch\<close> reads it.
\<close>

definition RequestInit :: "request_options \<Rightarrow> request_options" where
  "RequestInit opts = opts\<lparr>opt_bodyTimeout := None, opt_headersTimeout := None\<rparr>"

section \<open>The HTTP exchange\<close>

text \<open>
  What \<^verbatim>\<open>fetch\<close> does with a redirect is undici's part and not in the repository. For
  the claim on the redirect policy it is modelled from section 4.2 of the specification,
  over a server: the function from a URL to the response the server gives there, or to
  the message of a connection fault.
\<close>

type_synonym 'json server = "string \<Rightarrow> string + 'json response"

text \<open>Modelled from the spec: the target of "a redirect response (3xx)", which is not in
  the repository's sources (undici's \<^verbatim>\<open>fetch\<close>): the location header of a response with
  a status from 300 to 399.\<close>

definition redirect_target :: "'json response \<Rightarrow> string option" where
  "redirect_target r =
     (if 300 \<le> r_status r \<and> r_status r \<le> 399 then map_of (r_headers r) ''location'' else None)"

text \<open>Modelled from the spec: the exchange that "follows redirects transparently" so
  that the "finalUrl reflects the last URL reached", which is not in the repository's
  sources (undici's \<^verbatim>\<open>fetch\<close>). The number of redirects it follows is bounded; one more is
  a fault of the exchange.\<close>

fun follow :: "'json server \<Rightarrow> nat \<Rightarrow> string \<Rightarrow> string + 'json response" where
  "follow srv 0 u =
     (case srv u of
        Inl m \<Rightarrow> Inl m
      | Inr r \<Rightarrow> (case redirect_target r of
                   None \<Rightarrow> Inr (r\<lparr>r_url := u\<rparr>)
                 | Some v \<Rightarrow> Inl ''redirect count exceeded''))"
| "follow srv (Suc n) u =
     (case srv u of
        Inl m \<Rightarrow> Inl m
      | Inr r \<Rightarrow> (case redirect_target r of
                   None \<Rightarrow> Inr (r\<lparr>r_url := u\<rparr>)
                 | Some v \<Rightarrow> follow srv n v))"

text \<open>Modelled from the spec: the HTTP capability with its redirect policy, which is not
  in the repository's sources (undici's \<^verbatim>\<open>fetch\<close>): "when followRedirects is true, the
  exchange follows redirects transparently [...]; when false, a redirect response (3xx)
  is returned as-is without following, and finalUrl equals the original request URL".
  The handlers say \<^verbatim>\<open>redirect: "manual"\<close> for false; an exchange whose options name no
  policy follows.\<close>

definition http_exchange ::
  "'json server \<Rightarrow> nat \<Rightarrow> string \<Rightarrow> request_options \<Rightarrow> string + 'json response" where
  "http_exchange srv limit u opts =
     (if opt_redirect opts = Some Manual
      then (case srv u of Inl m \<Rightarrow> Inl m | Inr r \<Rightarrow> Inr (r\<lparr>r_url := u\<rparr>))
      else follow srv limit u)"

text \<open>Modelled from the spec: "the last URL reached after following zero or more
  redirects" is the last of a list of URLs in which each one's response redirects to the
  next.\<close>

fun redirect_chain :: "'json server \<Rightarrow> string list \<Rightarrow> bool" where
  "redirect_chain srv [] = False"
| "redirect_chain srv [u] = True"
| "redirect_chain srv (u # v # us) =
     ((case srv u of Inl m \<Rightarrow> False | Inr r \<Rightarrow> redirect_target r = Some v) \<and>
      redirect_chain srv (v # us))"

section \<open>A test server\<close>

text \<open>
  The routes of the repository's \<^verbatim>\<open>TestServer.addCommonRoutes\<close> (an HTML page, a JSON
  document, a 302 redirect to the page, a status route, a route that resets the
  connection, 404 for the rest), with two routes more: a page with several paragraphs and
  a 300 response. They give the concrete inputs of the examples below. The document
  functions are a small stand-in for jsdom: a document is the list of its elements in
  document order, each with its tag, its id and its outer markup; a selector is a tag
  name, and the empty string is no selector.
\<close>

type_synonym test_element = "string \<times> string \<times> string"

definition test_response :: "nat \<Rightarrow> string \<Rightarrow> header_list \<Rightarrow> string \<Rightarrow> string response" where
  "test_response s st hs b =
     \<lparr>r_status = s, r_statusText = st, r_headers = hs, r_url = [],
      r_text = Inr b,
      r_json = (if hs = [(''content-type'', ''application/json'')] then Inr b
                else Inl ''Unexpected token in JSON at position 0''),
      r_arrayBuffer = Inr (map (\<lambda>c. of_nat (of_char c)) b)\<rparr>"

definition test_page :: string where
  "test_page = ''<html><body><h1 id=top>Test Heading</h1><div class=content><p>This is a test paragraph.</p></div></body></html>''"

definition test_list_page :: string where
  "test_list_page = ''<html><body><p id=first>one</p><p>two</p><p>three</p></body></html>''"

definition test_server :: "string \<Rightarrow> string + string response" where
  "test_server u =
     (if u = ''http://localhost:3000/'' then
        Inr (test_response 200 ''OK'' [(''content-type'', ''text/html'')] test_page)
      else if u = ''http://localhost:3000/list'' then
        Inr (test_response 200 ''OK'' [(''content-type'', ''text/html'')] test_list_page)
      else if u = ''http://localhost:3000/json'' then
        Inr (test_response 200 ''OK'' [(''content-type'', ''application/json'')] ''{}'')
      else if u = ''http://localhost:3000/redirect'' then
        Inr (test_response 302 ''Found'' [(''location'', ''http://localhost:3000/'')] [])
      else if u = ''http://localhost:3000/choices'' then
        Inr (test_response 300 ''Multiple Choices'' [] [])
      else if u = ''http://localhost:3000/status'' then
        Inr (test_response 200 ''OK'' [] ''OK'')
      else if u = ''http://localhost:3000/error'' then
        Inl ''fetch failed''
      else Inr (test_response 404 ''Not Found'' [] ''Not Found''))"

text \<open>An exchange with this server that never follows a redirect.\<close>

definition test_fetch :: "string \<Rightarrow> request_options \<Rightarrow> string + string response" where
  "test_fetch u opts =
     (case test_server u of Inl m \<Rightarrow> Inl m | Inr r \<Rightarrow> Inr (r\<lparr>r_url := u\<rparr>))"

definition test_JSDOM :: "string \<Rightarrow> test_element list" where
  "test_JSDOM html =
     (if html = test_page then
        [(''h1'', ''top'', ''<h1 id=top>Test Heading</h1>''),
         (''div'', [], ''<div class=content><p>This is a test paragraph.</p></div>''),
         (''p'', [], ''<p>This is a test paragraph.</p>'')]
      else if html = test_list_page then
        [(''p'', ''first'', ''<p id=first>one</p>''),
         (''p'', [], ''<p>two</p>''),
         (''p'', [], ''<p>three</p>'')]
      else [])"

definition test_querySelectorAll :: "test_element list \<Rightarrow> string \<Rightarrow> string + test_element list" where
  "test_querySelectorAll d sel =
     (if sel = [] then Inl ''The string is not a valid selector''
      else Inr (filter (\<lambda>el. fst el = sel) d))"

definition test_getElementById :: "test_element list \<Rightarrow> string \<Rightarrow> test_element option" where
  "test_getElementById d i =
     (if i = [] then None else find (\<lambda>el. fst (snd el) = i) d)"

definition test_paragraphs :: "test_element list" where
  "test_paragraphs =
     [(''p'', ''first'', ''<p id=first>one</p>''), (''p'', [], ''<p>two</p>''),
      (''p'', [], ''<p>three</p>'')]"

definition test_env :: "(test_element list, test_element, string) env" where
  "test_env =
     \<lparr>fetch = test_fetch, JSDOM = test_JSDOM, querySelectorAll = test_querySelectorAll,
      getElementById = test_getElementById, outerHTML = (\<lambda>el. snd (snd el)),
      JSON_stringify = (\<lambda>v. v), toBase64 = (\<lambda>b. [])\<rparr>"

text \<open>The test server behind the exchange that follows at most 20 redirects.\<close>

definition test_redirect_env :: "(test_element list, test_element, string) env" where
  "test_redirect_env = test_env\<lparr>fetch := http_exchange test_server 20\<rparr>"

definition test_fetch_args :: "string \<Rightarrow> fetch_url_args" where
  "test_fetch_args u =
     \<lparr>fu_url = u, fu_method = GET, fu_headers = None, fu_body = None, fu_timeout = None,
      fu_responseType = Text, fu_followRedirects = True, fu_fragmentSelector = None\<rparr>"

definition test_extract_args :: "string \<Rightarrow> string \<Rightarrow> extract_args" where
  "test_extract_args u sel =
     \<lparr>ex_url = u, ex_selector = sel, ex_anchorId = None, ex_method = GET, ex_headers = None,
      ex_body = None, ex_timeout = None, ex_followRedirects = True\<rparr>"

definition test_status_args :: "string \<Rightarrow> check_status_args" where
  "test_status_args u = \<lparr>cs_url = u, cs_timeout = None\<rparr>"

section \<open>Properties\<close>

lemmas test_defs = test_env_def test_fetch_def test_server_def test_response_def
  test_JSDOM_def test_querySelectorAll_def test_getElementById_def test_page_def test_list_page_def
  test_fetch_args_def test_extract_args_def test_status_args_def test_paragraphs_def

lemma handleFetchUrl_response:
  "fetch e (fu_url a) (fetchUrlOptions a) = Inr r \<Longrightarrow>
   handleFetchUrl e a =
     (case processResponse e a r of Inl m \<Rightarrow> Inl (''Error fetching URL: '' @ m) | Inr res \<Rightarrow> Inr res)"
  by (simp add: handleFetchUrl_def)

lemma handleExtract_response:
  "fetch e (ex_url x) (extractOptions x) = Inr r \<Longrightarrow>
   handleExtractHtmlFragment e x =
     (case extractFromResponse e x r of
        Inl m \<Rightarrow> Inl (''Error extracting HTML fragment: '' @ m) | Inr res \<Rightarrow> Inr res)"
  by (simp add: handleExtractHtmlFragment_def)

lemma handleCheckStatus_response:
  "fetch e (cs_url c) (checkStatusOptions c) = Inr r \<Longrightarrow>
   handleCheckStatus e c =
     Inr \<lparr>st_status = r_status r, st_statusText = r_statusText r,
          st_headers = fromEntries (r_headers r), st_url = r_url r, st_isAvailable = ok r\<rparr>"
  by (simp add: handleCheckStatus_def)

subsection \<open>C1: availability reported by check-status\<close>

text \<open>
  Claim C1 says that a check-status call whose exchange completes with status \<open>S\<close>
  reports \<open>isAvailable = true\<close> exactly when \<open>S\<close> is between 200 and 399. The handler
  reports \<^verbatim>\<open>response.ok\<close>, which is true between 200 and 299 only: the theorem is the
  claim with 299 for 399. It holds for every response the exchange can return, and the
  call always returns a result then.
\<close>

theorem check_status_available_iff_2xx:
  assumes "fetch e (cs_url c) (checkStatusOptions c) = Inr r"
  shows "handleCheckStatus e c =
     Inr \<lparr>st_status = r_status r, st_statusText = r_statusText r,
          st_headers = fromEntries (r_headers r), st_url = r_url r,
          st_isAvailable = (200 \<le> r_status r \<and> r_status r \<le> 299)\<rparr>"
  using handleCheckStatus_response [OF assms] by (simp add: ok_def)

text \<open>The status route of the test server: 200, available.\<close>

theorem check_status_available_iff_2xx_witness:
  "handleCheckStatus test_env (test_status_args ''http://localhost:3000/status'') =
     Inr \<lparr>st_status = 200, st_statusText = ''OK'', st_headers = [],
          st_url = ''http://localhost:3000/status'', st_isAvailable = True\<rparr>"
  using check_status_available_iff_2xx [of test_env "test_status_args ''http://localhost:3000/status''"
      "(test_response 200 ''OK'' [] ''OK'')\<lparr>r_url := ''http://localhost:3000/status''\<rparr>"]
  by (simp add: test_defs fromEntries_def)

text \<open>The claim as stated fails for a 3xx status the exchange hands back, such as
  300 Multiple Choices: it is within 200 to 399 and \<open>isAvailable\<close> is false.\<close>

theorem check_status_300_counterexample:
  "handleCheckStatus test_env (test_status_args ''http://localhost:3000/choices'') =
     Inr \<lparr>st_status = 300, st_statusText = ''Multiple Choices'', st_headers = [],
          st_url = ''http://localhost:3000/choices'', st_isAvailable = False\<rparr>
   \<and> (200::nat) \<le> 300 \<and> (300::nat) \<le> 399"
  by (simp add: handleCheckStatus_def checkStatusOptions_def ok_def fromEntries_def test_defs)

subsection \<open>C9: an empty body is no body\<close>

lemma fetchUrlOptions_empty_body:
  "fetchUrlOptions (a\<lparr>fu_body := Some []\<rparr>) = fetchUrlOptions (a\<lparr>fu_body := None\<rparr>)"
  by (simp add: fetchUrlOptions_def or_undefined_def truthy_string_def Let_def)

lemma extractOptions_empty_body:
  "extractOptions (x\<lparr>ex_body := Some []\<rparr>) = extractOptions (x\<lparr>ex_body := None\<rparr>)"
  by (simp add: extractOptions_def or_undefined_def truthy_string_def Let_def)

lemma htmlFragmentCase_body: "htmlFragmentCase e (a\<lparr>fu_body := b\<rparr>) r = htmlFragmentCase e a r"
  by (simp add: htmlFragmentCase_def Let_def split: sum.splits)

lemma processResponse_body: "processResponse e (a\<lparr>fu_body := b\<rparr>) r = processResponse e a r"
  by (simp add: processResponse_def htmlFragmentCase_body split: response_type.splits)

lemma extractFromResponse_body:
  "extractFromResponse e (x\<lparr>ex_body := b\<rparr>) r = extractFromResponse e x r"
  by (simp add: extractFromResponse_def Let_def split: sum.splits)

lemma handleFetchUrl_empty_body:
  "handleFetchUrl e (a\<lparr>fu_body := Some []\<rparr>) = handleFetchUrl e (a\<lparr>fu_body := None\<rparr>)"
  by (simp add: handleFetchUrl_def fetchUrlOptions_empty_body processResponse_body
      split: sum.splits)

lemma handleExtract_empty_body:
  "handleExtractHtmlFragment e (x\<lparr>ex_body := Some []\<rparr>) =
   handleExtractHtmlFragment e (x\<lparr>ex_body := None\<rparr>)"
  by (simp add: handleExtractHtmlFragment_def extractOptions_empty_body extractFromResponse_body
      split: sum.splits)

lemma opt_body_empty:
  "opt_body (fetchUrlOptions (a\<lparr>fu_body := Some []\<rparr>)) = None"
  "opt_body (extractOptions (x\<lparr>ex_body := Some []\<rparr>)) = None"
  by (simp_all add: fetchUrlOptions_def extractOptions_def or_undefined_def truthy_string_def Let_def
      split: if_splits)

text \<open>
  Claim C9: a fetch-url or extract-html-fragment call whose \<open>body\<close> argument is the
  empty string issues its request with no body, and behaves as the call that leaves the
  argument out: the options handed to \<^verbatim>\<open>fetch\<close> are the same, with no body, and so is
  the whole result of the call.
\<close>

theorem empty_body_is_no_body:
  "fetchUrlOptions (a\<lparr>fu_body := Some []\<rparr>) = fetchUrlOptions (a\<lparr>fu_body := None\<rparr>)
   \<and> opt_body (fetchUrlOptions (a\<lparr>fu_body := Some []\<rparr>)) = None
   \<and> handleFetchUrl e (a\<lparr>fu_body := Some []\<rparr>) = handleFetchUrl e (a\<lparr>fu_body := None\<rparr>)
   \<and> extractOptions (x\<lparr>ex_body := Some []\<rparr>) = extractOptions (x\<lparr>ex_body := None\<rparr>)
   \<and> opt_body (extractOptions (x\<lparr>ex_body := Some []\<rparr>)) = None
   \<and> handleExtractHtmlFragment e (x\<lparr>ex_body := Some []\<rparr>) =
       handleExtractHtmlFragment e (x\<lparr>ex_body := None\<rparr>)"
  by (intro conjI fetchUrlOptions_empty_body extractOptions_empty_body handleFetchUrl_empty_body
      handleExtract_empty_body opt_body_empty)

subsection \<open>C2: a status outside 200 to 299\<close>

lemma processResponse_status:
  "processResponse e a (r\<lparr>r_status := s\<rparr>) =
     map_sum id (\<lambda>res. res\<lparr>res_status := s\<rparr>) (processResponse e a r)"
  by (simp add: processResponse_def htmlFragmentCase_def metadata_def Let_def
      split: response_type.splits sum.splits)

lemma processResponse_text:
  "fu_responseType a = Text \<Longrightarrow> r_text r = Inr t \<Longrightarrow> processResponse e a r = Inr (metadata r t)"
  by (simp add: processResponse_def)

lemma extractFromResponse_not_ok:
  "\<not> ok r \<Longrightarrow> extractFromResponse e x r =
     Inl (''Failed to fetch URL: HTTP '' @ dec (r_status r) @ '' '' @ r_statusText r)"
  by (simp add: extractFromResponse_def)

lemma sublist_mid: "sublist xs (ps @ xs @ ss)"
  by (auto simp: sublist_def)

text \<open>
  Claim C2: when the exchange completes with a status outside 200 to 299, check-status
  returns a result with that status, and so does fetch-url: with \<open>responseType\<close> text
  and a readable body it returns the metadata and the body, and for every response type
  the call returns what it returns for the same response with status 200, the status
  apart, so the status alone never makes it fail. extract-html-fragment fails with
  \<^verbatim>\<open>Failed to fetch URL: HTTP <status> <statusText>\<close>, which contains the status code; it
  does so whatever the body is and whether or not it can be read, as the check comes
  before \<^verbatim>\<open>response.text()\<close>.
\<close>

theorem non_2xx_status:
  assumes "\<not> ok r"
  shows "(fetch e (cs_url c) (checkStatusOptions c) = Inr r \<longrightarrow>
            handleCheckStatus e c =
              Inr \<lparr>st_status = r_status r, st_statusText = r_statusText r,
                   st_headers = fromEntries (r_headers r), st_url = r_url r,
                   st_isAvailable = False\<rparr>)
       \<and> (fetch e (fu_url a) (fetchUrlOptions a) = Inr r \<longrightarrow>
            (\<forall>t. fu_responseType a = Text \<and> r_text r = Inr t \<longrightarrow>
                 handleFetchUrl e a = Inr (metadata r t) \<and>
                 res_status (metadata r t) = r_status r)
          \<and> (\<forall>res. processResponse e a (r\<lparr>r_status := 200\<rparr>) = Inr res \<longrightarrow>
                 handleFetchUrl e a = Inr (res\<lparr>res_status := r_status r\<rparr>)))
       \<and> (fetch e (ex_url x) (extractOptions x) = Inr r \<longrightarrow>
            handleExtractHtmlFragment e x =
              Inl (''Error extracting HTML fragment: Failed to fetch URL: HTTP '' @
                   dec (r_status r) @ '' '' @ r_statusText r)
          \<and> sublist (dec (r_status r))
              (''Error extracting HTML fragment: Failed to fetch URL: HTTP '' @
               dec (r_status r) @ '' '' @ r_statusText r))"
proof (intro conjI impI allI)
  assume "fetch e (cs_url c) (checkStatusOptions c) = Inr r"
  from handleCheckStatus_response [OF this] assms
  show "handleCheckStatus e c =
      Inr \<lparr>st_status = r_status r, st_statusText = r_statusText r,
           st_headers = fromEntries (r_headers r), st_url = r_url r, st_isAvailable = False\<rparr>"
    by simp
next
  fix t
  assume f: "fetch e (fu_url a) (fetchUrlOptions a) = Inr r"
    and t: "fu_responseType a = Text \<and> r_text r = Inr t"
  from t have "processResponse e a r = Inr (metadata r t)"
    by (simp add: processResponse_text)
  with handleFetchUrl_response [OF f] show "handleFetchUrl e a = Inr (metadata r t)"
    by simp
  show "res_status (metadata r t) = r_status r"
    by (simp add: metadata_def)
next
  fix res
  assume f: "fetch e (fu_url a) (fetchUrlOptions a) = Inr r"
    and p: "processResponse e a (r\<lparr>r_status := 200\<rparr>) = Inr res"
  have "processResponse e a ((r\<lparr>r_status := 200\<rparr>)\<lparr>r_status := r_status r\<rparr>) =
      map_sum id (\<lambda>res. res\<lparr>res_status := r_status r\<rparr>)
        (processResponse e a (r\<lparr>r_status := 200\<rparr>))"
    by (rule processResponse_status)
  moreover have "(r\<lparr>r_status := 200\<rparr>)\<lparr>r_status := r_status r\<rparr> = r"
    by simp
  ultimately have "processResponse e a r = Inr (res\<lparr>res_status := r_status r\<rparr>)"
    using p by simp
  with handleFetchUrl_response [OF f]
  show "handleFetchUrl e a = Inr (res\<lparr>res_status := r_status r\<rparr>)"
    by simp
next
  assume f: "fetch e (ex_url x) (extractOptions x) = Inr r"
  from handleExtract_response [OF f] extractFromResponse_not_ok [OF assms, of e x]
  show "handleExtractHtmlFragment e x =
      Inl (''Error extracting HTML fragment: Failed to fetch URL: HTTP '' @
           dec (r_status r) @ '' '' @ r_statusText r)"
    by simp
next
  show "sublist (dec (r_status r))
      (''Error extracting HTML fragment: Failed to fetch URL: HTTP '' @
       dec (r_status r) @ '' '' @ r_statusText r)"
    by (rule sublist_mid)
qed

lemma dec_404: "dec 404 = ''404''"
  by (simp add: dec.simps digit_def)

text \<open>The 404 of the test server, for the three tools.\<close>

theorem non_2xx_status_witness:
  "handleCheckStatus test_env (test_status_args ''http://localhost:3000/missing'') =
     Inr \<lparr>st_status = 404, st_statusText = ''Not Found'', st_headers = [],
          st_url = ''http://localhost:3000/missing'', st_isAvailable = False\<rparr>
   \<and> handleFetchUrl test_env (test_fetch_args ''http://localhost:3000/missing'') =
     Inr \<lparr>res_status = 404, res_statusText = ''Not Found'', res_headers = [],
          res_url = ''http://localhost:3000/missing'', res_content = ''Not Found'',
          res_encoding = None, res_matchCount = None, res_contentType = None\<rparr>
   \<and> handleExtractHtmlFragment test_env (test_extract_args ''http://localhost:3000/missing'' ''h1'') =
     Inl ''Error extracting HTML fragment: Failed to fetch URL: HTTP 404 Not Found''"
  using non_2xx_status [of "(test_response 404 ''Not Found'' [] ''Not Found'')\<lparr>r_url := ''http://localhost:3000/missing''\<rparr>"
      test_env "test_status_args ''http://localhost:3000/missing''"
      "test_fetch_args ''http://localhost:3000/missing''"
      "test_extract_args ''http://localhost:3000/missing'' ''h1''"]
  by (simp add: test_defs ok_def fromEntries_def metadata_def checkStatusOptions_def
      fetchUrlOptions_def extractOptions_def dec_404)

subsection \<open>C3: several matches\<close>

lemma htmlFragmentCase_selected:
  assumes "r_text r = Inr html" "fu_fragmentSelector a = Some sel" "sel \<noteq> []"
    and "querySelectorAll e (JSDOM e html) sel = Inr els"
  shows "htmlFragmentCase e a r =
     (if length els = 0
      then Inl (''No elements found matching selector '' @ quote @ sel @ quote)
      else Inr ((metadata r (if length els = 1 then outerHTML e (els ! 0)
                             else join newline (map (outerHTML e) els)))
                \<lparr>res_matchCount := Some (length els), res_contentType := Some ''text/html''\<rparr>))"
  using assms by (simp add: htmlFragmentCase_def truthy_string_def Let_def)

lemma extractFromResponse_selected:
  assumes "ok r" "r_text r = Inr html"
    and "\<not> truthy_string (ex_anchorId x) \<or> getElementById e (JSDOM e html) (the (ex_anchorId x)) \<noteq> None"
    and "querySelectorAll e (JSDOM e html) (ex_selector x) = Inr els"
  shows "extractFromResponse e x r =
     (if length els = 0
      then Inl (''No elements found matching selector '' @ quote @ ex_selector x @ quote)
      else Inr \<lparr>fr_status = r_status r, fr_statusText = r_statusText r, fr_url = r_url r,
                fr_selector = ex_selector x, fr_matchCount = length els,
                fr_html = (if length els = 1 then HtmlString (outerHTML e (els ! 0))
                           else HtmlArray (map (outerHTML e) els))\<rparr>)"
  using assms by (auto simp add: extractFromResponse_def Let_def)

text \<open>
  Claim C3: when the selector matches \<open>N > 1\<close> elements \<open>els\<close> of the fetched document
  (in document order, as \<^verbatim>\<open>querySelectorAll\<close> lists them), fetch-url with
  \<open>responseType\<close> html-fragment returns as content one string, the outer markup of the
  elements in that order joined with newlines, and \<open>matchCount = N\<close>;
  extract-html-fragment returns as \<open>html\<close> the array of the \<open>N\<close> outer markups in that
  order, and \<open>matchCount = N\<close>. The calls are those that come to apply the selector: the
  body is readable, for fetch-url the selector is a non-empty string, for
  extract-html-fragment the status is ok and the anchor, if one is given, is found.
\<close>

theorem many_matches:
  assumes "r_text r = Inr html" and "1 < length els"
  shows "(fetch e (fu_url a) (fetchUrlOptions a) = Inr r \<and> fu_responseType a = HtmlFragment \<and>
          fu_fragmentSelector a = Some sel \<and> sel \<noteq> [] \<and>
          querySelectorAll e (JSDOM e html) sel = Inr els \<longrightarrow>
            handleFetchUrl e a =
              Inr ((metadata r (join newline (map (outerHTML e) els)))
                   \<lparr>res_matchCount := Some (length els), res_contentType := Some ''text/html''\<rparr>))
       \<and> (fetch e (ex_url x) (extractOptions x) = Inr r \<and> ok r \<and>
          (\<not> truthy_string (ex_anchorId x) \<or>
             getElementById e (JSDOM e html) (the (ex_anchorId x)) \<noteq> None) \<and>
          querySelectorAll e (JSDOM e html) (ex_selector x) = Inr els \<longrightarrow>
            handleExtractHtmlFragment e x =
              Inr \<lparr>fr_status = r_status r, fr_statusText = r_statusText r, fr_url = r_url r,
                   fr_selector = ex_selector x, fr_matchCount = length els,
                   fr_html = HtmlArray (map (outerHTML e) els)\<rparr>)"
proof (intro conjI impI)
  have ne: "els \<noteq> []" "length els \<noteq> Suc 0"
    using assms(2) by auto
  assume h: "fetch e (fu_url a) (fetchUrlOptions a) = Inr r \<and> fu_responseType a = HtmlFragment \<and>
      fu_fragmentSelector a = Some sel \<and> sel \<noteq> [] \<and>
      querySelectorAll e (JSDOM e html) sel = Inr els"
  then have "htmlFragmentCase e a r =
      Inr ((metadata r (join newline (map (outerHTML e) els)))
           \<lparr>res_matchCount := Some (length els), res_contentType := Some ''text/html''\<rparr>)"
    using assms ne htmlFragmentCase_selected [of r html a sel e els] by simp
  with h have "processResponse e a r =
      Inr ((metadata r (join newline (map (outerHTML e) els)))
           \<lparr>res_matchCount := Some (length els), res_contentType := Some ''text/html''\<rparr>)"
    by (simp add: processResponse_def)
  with h handleFetchUrl_response [of e a r]
  show "handleFetchUrl e a =
      Inr ((metadata r (join newline (map (outerHTML e) els)))
           \<lparr>res_matchCount := Some (length els), res_contentType := Some ''text/html''\<rparr>)"
    by simp
next
  have ne: "els \<noteq> []" "length els \<noteq> Suc 0"
    using assms(2) by auto
  assume h: "fetch e (ex_url x) (extractOptions x) = Inr r \<and> ok r \<and>
      (\<not> truthy_string (ex_anchorId x) \<or>
         getElementById e (JSDOM e html) (the (ex_anchorId x)) \<noteq> None) \<and>
      querySelectorAll e (JSDOM e html) (ex_selector x) = Inr els"
  then have "extractFromResponse e x r =
      Inr \<lparr>fr_status = r_status r, fr_statusText = r_statusText r, fr_url = r_url r,
           fr_selector = ex_selector x, fr_matchCount = length els,
           fr_html = HtmlArray (map (outerHTML e) els)\<rparr>"
    using assms ne extractFromResponse_selected [of r html x e els] by simp
  with h handleExtract_response [of e x r]
  show "handleExtractHtmlFragment e x =
      Inr \<lparr>fr_status = r_status r, fr_statusText = r_statusText r, fr_url = r_url r,
           fr_selector = ex_selector x, fr_matchCount = length els,
           fr_html = HtmlArray (map (outerHTML e) els)\<rparr>"
    by simp
qed

text \<open>The page of the test server with three paragraphs, for both tools.\<close>

theorem many_matches_witness:
  "handleFetchUrl test_env
     ((test_fetch_args ''http://localhost:3000/list'')
        \<lparr>fu_responseType := HtmlFragment, fu_fragmentSelector := Some ''p''\<rparr>) =
     Inr \<lparr>res_status = 200, res_statusText = ''OK'',
          res_headers = [(''content-type'', ''text/html'')],
          res_url = ''http://localhost:3000/list'',
          res_content = ''<p id=first>one</p>'' @ newline @ ''<p>two</p>'' @ newline @ ''<p>three</p>'',
          res_encoding = None, res_matchCount = Some 3, res_contentType = Some ''text/html''\<rparr>
   \<and> handleExtractHtmlFragment test_env (test_extract_args ''http://localhost:3000/list'' ''p'') =
     Inr \<lparr>fr_status = 200, fr_statusText = ''OK'', fr_url = ''http://localhost:3000/list'',
          fr_selector = ''p'', fr_matchCount = 3,
          fr_html = HtmlArray [''<p id=first>one</p>'', ''<p>two</p>'', ''<p>three</p>'']\<rparr>"
  using many_matches [of
      "(test_response 200 ''OK'' [(''content-type'', ''text/html'')] test_list_page)\<lparr>r_url := ''http://localhost:3000/list''\<rparr>"
      test_list_page test_paragraphs test_env
      "(test_fetch_args ''http://localhost:3000/list'')\<lparr>fu_responseType := HtmlFragment, fu_fragmentSelector := Some ''p''\<rparr>"
      "''p''" "test_extract_args ''http://localhost:3000/list'' ''p''"]
  by (simp add: test_defs test_paragraphs_def ok_def fromEntries_def metadata_def
      fetchUrlOptions_def extractOptions_def truthy_string_def)

subsection \<open>C6: no match\<close>

lemma handleFetchUrl_matchCount:
  "handleFetchUrl e a = Inr res \<Longrightarrow> res_matchCount res \<noteq> Some 0"
  by (auto simp add: handleFetchUrl_def processResponse_def htmlFragmentCase_def metadata_def
      Let_def split: sum.splits response_type.splits if_splits)

lemma handleExtract_matchCount:
  "handleExtractHtmlFragment e x = Inr res \<Longrightarrow> fr_matchCount res \<noteq> 0"
  by (auto simp add: handleExtractHtmlFragment_def extractFromResponse_def Let_def
      split: sum.splits if_splits)

text \<open>
  Claim C6: when the selector matches no element of the fetched document, both
  fragment paths fail with the message \<^verbatim>\<open>No elements found matching selector "<selector>"\<close>
  under their tags, which contains the selector, and neither ever returns a result with
  \<open>matchCount = 0\<close>. The last two conjuncts hold for every call. The first two are about
  the calls that come to apply the selector: the body is readable; for fetch-url the
  selector is a non-empty string (the empty string is no selector and is taken as no
  selector given); for extract-html-fragment the status is ok and the anchor, if one is
  given, is found.
\<close>

theorem no_match:
  assumes "r_text r = Inr html"
  shows "(fetch e (fu_url a) (fetchUrlOptions a) = Inr r \<and> fu_responseType a = HtmlFragment \<and>
          fu_fragmentSelector a = Some sel \<and> sel \<noteq> [] \<and>
          querySelectorAll e (JSDOM e html) sel = Inr [] \<longrightarrow>
            handleFetchUrl e a =
              Inl (''Error fetching URL: Failed to parse or extract HTML fragment: '' @
                   ''No elements found matching selector '' @ quote @ sel @ quote)
          \<and> sublist sel
              (''Error fetching URL: Failed to parse or extract HTML fragment: '' @
               ''No elements found matching selector '' @ quote @ sel @ quote))
       \<and> (fetch e (ex_url x) (extractOptions x) = Inr r \<and> ok r \<and>
          (\<not> truthy_string (ex_anchorId x) \<or>
             getElementById e (JSDOM e html) (the (ex_anchorId x)) \<noteq> None) \<and>
          querySelectorAll e (JSDOM e html) (ex_selector x) = Inr [] \<longrightarrow>
            handleExtractHtmlFragment e x =
              Inl (''Error extracting HTML fragment: '' @
                   ''No elements found matching selector '' @ quote @ ex_selector x @ quote)
          \<and> sublist (ex_selector x)
              (''Error extracting HTML fragment: '' @
               ''No elements found matching selector '' @ quote @ ex_selector x @ quote))
       \<and> (\<forall>res. handleFetchUrl e a = Inr res \<longrightarrow> res_matchCount res \<noteq> Some 0)
       \<and> (\<forall>res. handleExtractHtmlFragment e x = Inr res \<longrightarrow> fr_matchCount res \<noteq> 0)"
proof (intro conjI impI allI)
  assume h: "fetch e (fu_url a) (fetchUrlOptions a) = Inr r \<and> fu_responseType a = HtmlFragment \<and>
      fu_fragmentSelector a = Some sel \<and> sel \<noteq> [] \<and>
      querySelectorAll e (JSDOM e html) sel = Inr []"
  then have "htmlFragmentCase e a r =
      Inl (''No elements found matching selector '' @ quote @ sel @ quote)"
    using assms htmlFragmentCase_selected [of r html a sel e "[]"] by simp
  with h have "processResponse e a r =
      Inl (''Failed to parse or extract HTML fragment: '' @
           ''No elements found matching selector '' @ quote @ sel @ quote)"
    by (simp add: processResponse_def)
  with h handleFetchUrl_response [of e a r]
  show "handleFetchUrl e a =
      Inl (''Error fetching URL: Failed to parse or extract HTML fragment: '' @
           ''No elements found matching selector '' @ quote @ sel @ quote)"
    by simp
next
  have "sublist sel ((''Error fetching URL: Failed to parse or extract HTML fragment: '' @
      ''No elements found matching selector '' @ quote) @ sel @ quote)"
    by (rule sublist_mid)
  then show "sublist sel
      (''Error fetching URL: Failed to parse or extract HTML fragment: '' @
       ''No elements found matching selector '' @ quote @ sel @ quote)"
    by simp
next
  assume h: "fetch e (ex_url x) (extractOptions x) = Inr r \<and> ok r \<and>
      (\<not> truthy_string (ex_anchorId x) \<or>
         getElementById e (JSDOM e html) (the (ex_anchorId x)) \<noteq> None) \<and>
      querySelectorAll e (JSDOM e html) (ex_selector x) = Inr []"
  then have "extractFromResponse e x r =
      Inl (''No elements found matching selector '' @ quote @ ex_selector x @ quote)"
    using assms extractFromResponse_selected [of r html x e "[]"] by simp
  with h handleExtract_response [of e x r]
  show "handleExtractHtmlFragment e x =
      Inl (''Error extracting HTML fragment: '' @
           ''No elements found matching selector '' @ quote @ ex_selector x @ quote)"
    by simp
next
  have "sublist (ex_selector x) ((''Error extracting HTML fragment: '' @
      ''No elements found matching selector '' @ quote) @ ex_selector x @ quote)"
    by (rule sublist_mid)
  then show "sublist (ex_selector x)
      (''Error extracting HTML fragment: '' @
       ''No elements found matching selector '' @ quote @ ex_selector x @ quote)"
    by simp
next
  fix res assume "handleFetchUrl e a = Inr res"
  then show "res_matchCount res \<noteq> Some 0" by (rule handleFetchUrl_matchCount)
next
  fix res assume "handleExtractHtmlFragment e x = Inr res"
  then show "fr_matchCount res \<noteq> 0" by (rule handleExtract_matchCount)
qed

text \<open>The selector \<^verbatim>\<open>nonexistent-element\<close> of the repository's test, on the test page.\<close>

theorem no_match_witness:
  "handleFetchUrl test_env
     ((test_fetch_args ''http://localhost:3000/'')
        \<lparr>fu_responseType := HtmlFragment, fu_fragmentSelector := Some ''nonexistent-element''\<rparr>) =
     Inl (''Error fetching URL: Failed to parse or extract HTML fragment: '' @
          ''No elements found matching selector '' @ quote @ ''nonexistent-element'' @ quote)
   \<and> handleExtractHtmlFragment test_env
       (test_extract_args ''http://localhost:3000/'' ''nonexistent-element'') =
     Inl (''Error extracting HTML fragment: '' @
          ''No elements found matching selector '' @ quote @ ''nonexistent-element'' @ quote)"
  using no_match [of
      "(test_response 200 ''OK'' [(''content-type'', ''text/html'')] test_page)\<lparr>r_url := ''http://localhost:3000/''\<rparr>"
      test_page test_env
      "(test_fetch_args ''http://localhost:3000/'')\<lparr>fu_responseType := HtmlFragment, fu_fragmentSelector := Some ''nonexistent-element''\<rparr>"
      "''nonexistent-element''" "test_extract_args ''http://localhost:3000/'' ''nonexistent-element''"]
  by (simp add: test_defs ok_def fetchUrlOptions_def extractOptions_def truthy_string_def)

subsection \<open>C5: the anchor\<close>

lemma extractOptions_anchorId: "extractOptions (x\<lparr>ex_anchorId := b\<rparr>) = extractOptions x"
  by (simp add: extractOptions_def Let_def)

lemma extractFromResponse_anchor_missing:
  assumes "ok r" "r_text r = Inr html" "aid \<noteq> []" "getElementById e (JSDOM e html) aid = None"
  shows "extractFromResponse e (x\<lparr>ex_anchorId := Some aid\<rparr>) r =
     Inl (''Anchor element with ID '' @ quote @ aid @ quote @ '' not found'')"
  using assms by (simp add: extractFromResponse_def truthy_string_def Let_def)

lemma extractFromResponse_anchor_found:
  assumes "r_text r = Inr html" "getElementById e (JSDOM e html) aid \<noteq> None"
  shows "extractFromResponse e (x\<lparr>ex_anchorId := Some aid\<rparr>) r =
         extractFromResponse e (x\<lparr>ex_anchorId := None\<rparr>) r"
  using assms by (auto simp add: extractFromResponse_def truthy_string_def Let_def split: sum.splits)

lemma extractFromResponse_anchor_empty:
  "extractFromResponse e (x\<lparr>ex_anchorId := Some []\<rparr>) r =
   extractFromResponse e (x\<lparr>ex_anchorId := None\<rparr>) r"
  by (simp add: extractFromResponse_def truthy_string_def Let_def split: sum.splits)

text \<open>
  Claim C5 says that an extract-html-fragment call that supplies an \<open>anchorId\<close> fails
  with \<^verbatim>\<open>Anchor element with ID "<id>" not found\<close> when the fetched document has no
  element of that id, and otherwise returns what the call without \<open>anchorId\<close> returns.
  The handler makes the check under \<^verbatim>\<open>if (anchorId)\<close>, so the claim holds for a non-empty
  \<open>anchorId\<close>; an empty one is taken as none given (third conjunct). The document is
  fetched: the exchange returns a response with an ok status and a readable body.
\<close>

theorem anchor_gate:
  assumes "fetch e (ex_url x) (extractOptions x) = Inr r" and "ok r" and "r_text r = Inr html"
    and "aid \<noteq> []"
  shows "(getElementById e (JSDOM e html) aid = None \<longrightarrow>
            handleExtractHtmlFragment e (x\<lparr>ex_anchorId := Some aid\<rparr>) =
              Inl (''Error extracting HTML fragment: '' @
                   ''Anchor element with ID '' @ quote @ aid @ quote @ '' not found'')
          \<and> sublist aid
              (''Error extracting HTML fragment: '' @
               ''Anchor element with ID '' @ quote @ aid @ quote @ '' not found''))
       \<and> (getElementById e (JSDOM e html) aid \<noteq> None \<longrightarrow>
            handleExtractHtmlFragment e (x\<lparr>ex_anchorId := Some aid\<rparr>) =
            handleExtractHtmlFragment e (x\<lparr>ex_anchorId := None\<rparr>))
       \<and> handleExtractHtmlFragment e (x\<lparr>ex_anchorId := Some []\<rparr>) =
         handleExtractHtmlFragment e (x\<lparr>ex_anchorId := None\<rparr>)"
proof (intro conjI impI)
  assume "getElementById e (JSDOM e html) aid = None"
  with assms have "extractFromResponse e (x\<lparr>ex_anchorId := Some aid\<rparr>) r =
      Inl (''Anchor element with ID '' @ quote @ aid @ quote @ '' not found'')"
    by (simp add: extractFromResponse_anchor_missing)
  with assms(1) show "handleExtractHtmlFragment e (x\<lparr>ex_anchorId := Some aid\<rparr>) =
      Inl (''Error extracting HTML fragment: '' @
           ''Anchor element with ID '' @ quote @ aid @ quote @ '' not found'')"
    by (simp add: handleExtractHtmlFragment_def extractOptions_anchorId)
next
  have "sublist aid ((''Error extracting HTML fragment: '' @
      ''Anchor element with ID '' @ quote) @ aid @ (quote @ '' not found''))"
    by (rule sublist_mid)
  then show "sublist aid
      (''Error extracting HTML fragment: '' @
       ''Anchor element with ID '' @ quote @ aid @ quote @ '' not found'')"
    by simp
next
  assume "getElementById e (JSDOM e html) aid \<noteq> None"
  with assms(3) have "extractFromResponse e (x\<lparr>ex_anchorId := Some aid\<rparr>) r =
      extractFromResponse e (x\<lparr>ex_anchorId := None\<rparr>) r"
    by (rule extractFromResponse_anchor_found)
  with assms(1) show "handleExtractHtmlFragment e (x\<lparr>ex_anchorId := Some aid\<rparr>) =
      handleExtractHtmlFragment e (x\<lparr>ex_anchorId := None\<rparr>)"
    by (simp add: handleExtractHtmlFragment_def extractOptions_anchorId)
next
  show "handleExtractHtmlFragment e (x\<lparr>ex_anchorId := Some []\<rparr>) =
      handleExtractHtmlFragment e (x\<lparr>ex_anchorId := None\<rparr>)"
    by (simp add: handleExtractHtmlFragment_def extractOptions_anchorId
        extractFromResponse_anchor_empty split: sum.splits)
qed


text \<open>The test page has an element of id \<^verbatim>\<open>top\<close> and none of id \<^verbatim>\<open>missing\<close>.\<close>

theorem anchor_gate_witness:
  "handleExtractHtmlFragment test_env
     ((test_extract_args ''http://localhost:3000/'' ''h1'')\<lparr>ex_anchorId := Some ''missing''\<rparr>) =
     Inl (''Error extracting HTML fragment: '' @
          ''Anchor element with ID '' @ quote @ ''missing'' @ quote @ '' not found'')
   \<and> handleExtractHtmlFragment test_env
       ((test_extract_args ''http://localhost:3000/'' ''h1'')\<lparr>ex_anchorId := Some ''top''\<rparr>) =
     handleExtractHtmlFragment test_env
       ((test_extract_args ''http://localhost:3000/'' ''h1'')\<lparr>ex_anchorId := None\<rparr>)"
  using anchor_gate [of test_env "test_extract_args ''http://localhost:3000/'' ''h1''"
      "(test_response 200 ''OK'' [(''content-type'', ''text/html'')] test_page)\<lparr>r_url := ''http://localhost:3000/''\<rparr>"
      test_page "''missing''"]
    anchor_gate [of test_env "test_extract_args ''http://localhost:3000/'' ''h1''"
      "(test_response 200 ''OK'' [(''content-type'', ''text/html'')] test_page)\<lparr>r_url := ''http://localhost:3000/''\<rparr>"
      test_page "''top''"]
  by (simp add: test_defs ok_def extractOptions_def)

text \<open>The claim as stated fails for the empty \<open>anchorId\<close>: no element of the test page
  has it, and the call returns the heading.\<close>

theorem empty_anchor_counterexample:
  "getElementById test_env (JSDOM test_env test_page) [] = None
   \<and> handleExtractHtmlFragment test_env
       ((test_extract_args ''http://localhost:3000/'' ''h1'')\<lparr>ex_anchorId := Some []\<rparr>) =
     Inr \<lparr>fr_status = 200, fr_statusText = ''OK'', fr_url = ''http://localhost:3000/'',
          fr_selector = ''h1'', fr_matchCount = 1,
          fr_html = HtmlString ''<h1 id=top>Test Heading</h1>''\<rparr>"
  by (simp add: handleExtractHtmlFragment_def extractFromResponse_def extractOptions_def
      truthy_string_def ok_def test_defs)

subsection \<open>C10: the content type of an html-fragment result\<close>

lemma processResponse_contentType:
  "processResponse e a r = Inr res \<Longrightarrow>
   res_contentType res = (if fu_responseType a = HtmlFragment then Some ''text/html'' else None)"
  by (auto simp add: processResponse_def htmlFragmentCase_def metadata_def Let_def
      split: sum.splits response_type.splits if_splits)

lemma processResponse_whole_document:
  "processResponse e a r = Inr res \<Longrightarrow> fu_responseType a = HtmlFragment \<Longrightarrow>
   fu_fragmentSelector a = None \<Longrightarrow>
   res_matchCount res = None \<and> r_text r = Inr (res_content res) \<and>
   res = (metadata r (res_content res))\<lparr>res_contentType := Some ''text/html''\<rparr>"
  by (auto simp add: processResponse_def htmlFragmentCase_def metadata_def truthy_string_def Let_def
      split: sum.splits)

lemma handleFetchUrl_Inr:
  "handleFetchUrl e a = Inr res \<Longrightarrow>
   \<exists>r. fetch e (fu_url a) (fetchUrlOptions a) = Inr r \<and> processResponse e a r = Inr res"
  by (auto simp add: handleFetchUrl_def split: sum.splits)

text \<open>
  Claim C10: a successful fetch-url result has \<open>contentType = "text/html"\<close> exactly when
  \<open>responseType\<close> is html-fragment, with or without a \<open>fragmentSelector\<close>, and has no
  \<open>contentType\<close> for the other response types; with html-fragment and no
  \<open>fragmentSelector\<close> the result has no \<open>matchCount\<close>, and its content is the text of
  the body as \<^verbatim>\<open>response.text()\<close> returned it.
\<close>

theorem html_fragment_contentType:
  assumes "handleFetchUrl e a = Inr res"
  shows "(res_contentType res = Some ''text/html'' \<longleftrightarrow> fu_responseType a = HtmlFragment)
       \<and> (fu_responseType a \<noteq> HtmlFragment \<longrightarrow> res_contentType res = None)
       \<and> (fu_responseType a = HtmlFragment \<and> fu_fragmentSelector a = None \<longrightarrow>
            res_matchCount res = None
          \<and> (\<exists>r. fetch e (fu_url a) (fetchUrlOptions a) = Inr r \<and>
                  r_text r = Inr (res_content res) \<and>
                  res = (metadata r (res_content res))\<lparr>res_contentType := Some ''text/html''\<rparr>))"
proof -
  from handleFetchUrl_Inr [OF assms] obtain r
    where f: "fetch e (fu_url a) (fetchUrlOptions a) = Inr r"
      and p: "processResponse e a r = Inr res"
    by blast
  from processResponse_contentType [OF p]
  have c: "res_contentType res = (if fu_responseType a = HtmlFragment then Some ''text/html'' else None)" .
  have w: "res_matchCount res = None \<and> r_text r = Inr (res_content res) \<and>
      res = (metadata r (res_content res))\<lparr>res_contentType := Some ''text/html''\<rparr>"
    if "fu_responseType a = HtmlFragment \<and> fu_fragmentSelector a = None"
    using processResponse_whole_document [OF p] that by simp
  show ?thesis
  proof (intro conjI impI)
    show "res_contentType res = Some ''text/html'' \<longleftrightarrow> fu_responseType a = HtmlFragment"
      using c by simp
    show "res_contentType res = None" if "fu_responseType a \<noteq> HtmlFragment"
      using c that by simp
    show "res_matchCount res = None"
      if "fu_responseType a = HtmlFragment \<and> fu_fragmentSelector a = None"
      using w that by simp
    show "\<exists>r. fetch e (fu_url a) (fetchUrlOptions a) = Inr r \<and>
        r_text r = Inr (res_content res) \<and>
        res = (metadata r (res_content res))\<lparr>res_contentType := Some ''text/html''\<rparr>"
      if "fu_responseType a = HtmlFragment \<and> fu_fragmentSelector a = None"
      using w f that by simp
  qed
qed

text \<open>The test page, fetched as html-fragment with no selector.\<close>

theorem html_fragment_contentType_witness:
  "handleFetchUrl test_env
     ((test_fetch_args ''http://localhost:3000/'')\<lparr>fu_responseType := HtmlFragment\<rparr>) =
     Inr \<lparr>res_status = 200, res_statusText = ''OK'',
          res_headers = [(''content-type'', ''text/html'')],
          res_url = ''http://localhost:3000/'', res_content = test_page,
          res_encoding = None, res_matchCount = None, res_contentType = Some ''text/html''\<rparr>
   \<and> res_contentType \<lparr>res_status = 200, res_statusText = ''OK'',
          res_headers = [(''content-type'', ''text/html'')],
          res_url = ''http://localhost:3000/'', res_content = test_page,
          res_encoding = None, res_matchCount = None, res_contentType = Some ''text/html''\<rparr>
       = Some ''text/html''"
  using html_fragment_contentType [of test_env
      "(test_fetch_args ''http://localhost:3000/'')\<lparr>fu_responseType := HtmlFragment\<rparr>"
      "\<lparr>res_status = 200, res_statusText = ''OK'',
          res_headers = [(''content-type'', ''text/html'')],
          res_url = ''http://localhost:3000/'', res_content = test_page,
          res_encoding = None, res_matchCount = None, res_contentType = Some ''text/html''\<rparr>"]
  by (simp add: handleFetchUrl_def processResponse_def htmlFragmentCase_def metadata_def
      fetchUrlOptions_def truthy_string_def truthy_number_def fromEntries_def test_defs)

subsection \<open>C4: the timeout\<close>

text \<open>With a positive \<open>timeout\<close> the handlers put it into the options: fetch-url and
  extract-html-fragment as \<^verbatim>\<open>headersTimeout\<close> and \<^verbatim>\<open>bodyTimeout\<close>, check-status as
  \<^verbatim>\<open>headersTimeout\<close> only.\<close>

lemma fetchUrlOptions_timeout:
  "0 < T \<Longrightarrow> opt_headersTimeout (fetchUrlOptions (a\<lparr>fu_timeout := Some T\<rparr>)) = Some T \<and>
             opt_bodyTimeout (fetchUrlOptions (a\<lparr>fu_timeout := Some T\<rparr>)) = Some T"
  by (simp add: fetchUrlOptions_def truthy_number_def Let_def)

lemma extractOptions_timeout:
  "0 < T \<Longrightarrow> opt_headersTimeout (extractOptions (x\<lparr>ex_timeout := Some T\<rparr>)) = Some T \<and>
             opt_bodyTimeout (extractOptions (x\<lparr>ex_timeout := Some T\<rparr>)) = Some T"
  by (simp add: extractOptions_def truthy_number_def Let_def)

lemma checkStatusOptions_timeout:
  "0 < T \<Longrightarrow> opt_headersTimeout (checkStatusOptions (c\<lparr>cs_timeout := Some T\<rparr>)) = Some T \<and>
             opt_bodyTimeout (checkStatusOptions (c\<lparr>cs_timeout := Some T\<rparr>)) = None \<and>
             opt_method (checkStatusOptions (c\<lparr>cs_timeout := Some T\<rparr>)) = Some HEAD"
  by (simp add: checkStatusOptions_def truthy_number_def Let_def)

text \<open>The timeout is the only thing of the argument that reaches the options, and only
  in the two properties that \<^verbatim>\<open>fetch\<close> does not read.\<close>

lemma RequestInit_timeout:
  "RequestInit (fetchUrlOptions (a\<lparr>fu_timeout := t\<rparr>)) = RequestInit (fetchUrlOptions a)"
  "RequestInit (extractOptions (x\<lparr>ex_timeout := t\<rparr>)) = RequestInit (extractOptions x)"
  "RequestInit (checkStatusOptions (c\<lparr>cs_timeout := t\<rparr>)) = RequestInit (checkStatusOptions c)"
  by (simp_all add: RequestInit_def fetchUrlOptions_def extractOptions_def checkStatusOptions_def
      Let_def)

lemma htmlFragmentCase_timeout:
  "htmlFragmentCase e (a\<lparr>fu_timeout := t\<rparr>) r = htmlFragmentCase e a r"
  by (simp add: htmlFragmentCase_def Let_def split: sum.splits)

lemma processResponse_timeout: "processResponse e (a\<lparr>fu_timeout := t\<rparr>) r = processResponse e a r"
  by (simp add: processResponse_def htmlFragmentCase_timeout split: response_type.splits)

lemma extractFromResponse_timeout:
  "extractFromResponse e (x\<lparr>ex_timeout := t\<rparr>) r = extractFromResponse e x r"
  by (simp add: extractFromResponse_def Let_def split: sum.splits)

text \<open>
  Claim C4 says that a positive \<open>timeout\<close> argument \<open>T\<close> bounds the wait for the headers
  and for the body in each of the three tools, and that exceeding it gives an error
  result. The handlers attempt it and miss: they pass \<open>T\<close> in properties that \<^verbatim>\<open>fetch\<close>
  does not read. Whenever the exchange reads the options as \<open>RequestInit\<close> gives them,
  as undici's \<^verbatim>\<open>fetch\<close> does, each tool returns with the timeout \<open>T\<close> exactly what it
  returns with no timeout at all, whatever \<open>T\<close> is and however long the exchange takes:
  no timeout error can come of \<open>T\<close>.
\<close>

theorem timeout_inert:
  assumes "\<And>u opts. fetch e u opts = fetch e u (RequestInit opts)"
  shows "handleFetchUrl e (a\<lparr>fu_timeout := Some T\<rparr>) = handleFetchUrl e (a\<lparr>fu_timeout := None\<rparr>)
       \<and> handleExtractHtmlFragment e (x\<lparr>ex_timeout := Some T\<rparr>) =
         handleExtractHtmlFragment e (x\<lparr>ex_timeout := None\<rparr>)
       \<and> handleCheckStatus e (c\<lparr>cs_timeout := Some T\<rparr>) =
         handleCheckStatus e (c\<lparr>cs_timeout := None\<rparr>)"
proof (intro conjI)
  have "fetch e (fu_url a) (fetchUrlOptions (a\<lparr>fu_timeout := Some T\<rparr>)) =
      fetch e (fu_url a) (fetchUrlOptions (a\<lparr>fu_timeout := None\<rparr>))"
    using assms [of "fu_url a" "fetchUrlOptions (a\<lparr>fu_timeout := Some T\<rparr>)"]
      assms [of "fu_url a" "fetchUrlOptions (a\<lparr>fu_timeout := None\<rparr>)"]
    by (simp add: RequestInit_timeout)
  then show "handleFetchUrl e (a\<lparr>fu_timeout := Some T\<rparr>) =
      handleFetchUrl e (a\<lparr>fu_timeout := None\<rparr>)"
    by (simp add: handleFetchUrl_def processResponse_timeout split: sum.splits)
next
  have "fetch e (ex_url x) (extractOptions (x\<lparr>ex_timeout := Some T\<rparr>)) =
      fetch e (ex_url x) (extractOptions (x\<lparr>ex_timeout := None\<rparr>))"
    using assms [of "ex_url x" "extractOptions (x\<lparr>ex_timeout := Some T\<rparr>)"]
      assms [of "ex_url x" "extractOptions (x\<lparr>ex_timeout := None\<rparr>)"]
    by (simp add: RequestInit_timeout)
  then show "handleExtractHtmlFragment e (x\<lparr>ex_timeout := Some T\<rparr>) =
      handleExtractHtmlFragment e (x\<lparr>ex_timeout := None\<rparr>)"
    by (simp add: handleExtractHtmlFragment_def extractFromResponse_timeout split: sum.splits)
next
  have "fetch e (cs_url c) (checkStatusOptions (c\<lparr>cs_timeout := Some T\<rparr>)) =
      fetch e (cs_url c) (checkStatusOptions (c\<lparr>cs_timeout := None\<rparr>))"
    using assms [of "cs_url c" "checkStatusOptions (c\<lparr>cs_timeout := Some T\<rparr>)"]
      assms [of "cs_url c" "checkStatusOptions (c\<lparr>cs_timeout := None\<rparr>)"]
    by (simp add: RequestInit_timeout)
  then show "handleCheckStatus e (c\<lparr>cs_timeout := Some T\<rparr>) =
      handleCheckStatus e (c\<lparr>cs_timeout := None\<rparr>)"
    by (simp add: handleCheckStatus_def)
qed

text \<open>The status route of the test server with a timeout of 300 ms: the three tools
  return what they return without one.\<close>

theorem timeout_inert_witness:
  "handleFetchUrl test_env ((test_fetch_args ''http://localhost:3000/status'')\<lparr>fu_timeout := Some 300\<rparr>) =
     handleFetchUrl test_env (test_fetch_args ''http://localhost:3000/status'')
   \<and> handleExtractHtmlFragment test_env
        ((test_extract_args ''http://localhost:3000/'' ''h1'')\<lparr>ex_timeout := Some 300\<rparr>) =
     handleExtractHtmlFragment test_env (test_extract_args ''http://localhost:3000/'' ''h1'')
   \<and> handleCheckStatus test_env ((test_status_args ''http://localhost:3000/status'')\<lparr>cs_timeout := Some 300\<rparr>) =
     handleCheckStatus test_env (test_status_args ''http://localhost:3000/status'')"
  using timeout_inert [where e = test_env and T = 300
      and a = "test_fetch_args ''http://localhost:3000/status''"
      and x = "test_extract_args ''http://localhost:3000/'' ''h1''"
      and c = "test_status_args ''http://localhost:3000/status''"]
  by (simp add: test_env_def test_fetch_def test_fetch_args_def test_extract_args_def
      test_status_args_def)

subsection \<open>C8: the redirect policy\<close>

lemma follow_chain:
  "follow srv n u = Inr r' \<Longrightarrow>
   \<exists>us r. redirect_chain srv (u # us) \<and> length us \<le> n \<and> srv (last (u # us)) = Inr r \<and>
          redirect_target r = None \<and> r' = r\<lparr>r_url := last (u # us)\<rparr>"
proof (induction n arbitrary: u)
  case 0
  then show ?case
    by (intro exI [of _ "[]"]) (auto split: sum.splits option.splits)
next
  case (Suc n)
  show ?case
  proof (cases "srv u")
    case (Inl m)
    with Suc.prems show ?thesis by simp
  next
    case (Inr r)
    show ?thesis
    proof (cases "redirect_target r")
      case None
      with Inr Suc.prems show ?thesis
        by (intro exI [of _ "[]"]) auto
    next
      case (Some v)
      with Inr Suc.prems have "follow srv n v = Inr r'" by simp
      from Suc.IH [OF this] obtain us r0
        where c: "redirect_chain srv (v # us)" and l: "length us \<le> n"
          and s: "srv (last (v # us)) = Inr r0" and t: "redirect_target r0 = None"
          and e: "r' = r0\<lparr>r_url := last (v # us)\<rparr>"
        by blast
      from c Inr Some have "redirect_chain srv (u # v # us)" by simp
      moreover from l have "length (v # us) \<le> Suc n" by simp
      moreover from s have "srv (last (u # v # us)) = Inr r0" by simp
      moreover from e have "r' = r0\<lparr>r_url := last (u # v # us)\<rparr>" by simp
      ultimately show ?thesis using t by blast
    qed
  qed
qed

lemma processResponse_meta:
  "processResponse e a r = Inr res \<Longrightarrow>
   res_url res = r_url r \<and> res_status res = r_status r \<and> res_statusText res = r_statusText r"
  by (auto simp add: processResponse_def htmlFragmentCase_def metadata_def Let_def
      split: sum.splits response_type.splits if_splits)

lemma extractFromResponse_meta:
  "extractFromResponse e x r = Inr res \<Longrightarrow>
   fr_url res = r_url r \<and> fr_status res = r_status r \<and> ok r"
  by (auto simp add: extractFromResponse_def Let_def split: sum.splits if_splits)

lemma handleExtract_Inr:
  "handleExtractHtmlFragment e x = Inr res \<Longrightarrow>
   \<exists>r. fetch e (ex_url x) (extractOptions x) = Inr r \<and> extractFromResponse e x r = Inr res"
  by (auto simp add: handleExtractHtmlFragment_def split: sum.splits)

lemma redirect_option:
  "opt_redirect (fetchUrlOptions a) = Some (if fu_followRedirects a then Follow else Manual)"
  "opt_redirect (extractOptions x) = Some (if ex_followRedirects x then Follow else Manual)"
  by (simp_all add: fetchUrlOptions_def extractOptions_def Let_def)

lemma fetch_url_followed:
  assumes "fetch e = http_exchange srv limit" and "fu_followRedirects a"
    and "handleFetchUrl e a = Inr res"
  shows "\<exists>us r. redirect_chain srv (fu_url a # us) \<and> length us \<le> limit \<and>
           res_url res = last (fu_url a # us) \<and> srv (res_url res) = Inr r \<and>
           redirect_target r = None \<and> res_status res = r_status r"
proof -
  from handleFetchUrl_Inr [OF assms(3)] obtain r'
    where f: "fetch e (fu_url a) (fetchUrlOptions a) = Inr r'"
      and p: "processResponse e a r' = Inr res"
    by blast
  from f assms(1,2) have "follow srv limit (fu_url a) = Inr r'"
    by (simp add: http_exchange_def redirect_option)
  from follow_chain [OF this] obtain us r
    where "redirect_chain srv (fu_url a # us)" "length us \<le> limit"
      "srv (last (fu_url a # us)) = Inr r" "redirect_target r = None"
      "r' = r\<lparr>r_url := last (fu_url a # us)\<rparr>"
    by blast
  with processResponse_meta [OF p] show ?thesis
    by (intro exI [of _ us] exI [of _ r]) simp
qed

lemma extract_followed:
  assumes "fetch e = http_exchange srv limit" and "ex_followRedirects x"
    and "handleExtractHtmlFragment e x = Inr res"
  shows "\<exists>us r. redirect_chain srv (ex_url x # us) \<and> length us \<le> limit \<and>
           fr_url res = last (ex_url x # us) \<and> srv (fr_url res) = Inr r \<and>
           redirect_target r = None \<and> fr_status res = r_status r"
proof -
  from handleExtract_Inr [OF assms(3)] obtain r'
    where f: "fetch e (ex_url x) (extractOptions x) = Inr r'"
      and p: "extractFromResponse e x r' = Inr res"
    by blast
  from f assms(1,2) have "follow srv limit (ex_url x) = Inr r'"
    by (simp add: http_exchange_def redirect_option)
  from follow_chain [OF this] obtain us r
    where "redirect_chain srv (ex_url x # us)" "length us \<le> limit"
      "srv (last (ex_url x # us)) = Inr r" "redirect_target r = None"
      "r' = r\<lparr>r_url := last (ex_url x # us)\<rparr>"
    by blast
  with extractFromResponse_meta [OF p] show ?thesis
    by (intro exI [of _ us] exI [of _ r]) simp
qed

lemma fetch_url_manual:
  assumes "fetch e = http_exchange srv limit" and "\<not> fu_followRedirects a"
  shows "(\<forall>res. handleFetchUrl e a = Inr res \<longrightarrow>
            res_url res = fu_url a \<and>
            (\<exists>r. srv (fu_url a) = Inr r \<and> res_status res = r_status r))
       \<and> (\<forall>r t. srv (fu_url a) = Inr r \<and> fu_responseType a = Text \<and> r_text r = Inr t \<longrightarrow>
            handleFetchUrl e a = Inr (metadata (r\<lparr>r_url := fu_url a\<rparr>) t))"
proof (intro conjI allI impI)
  fix res assume h: "handleFetchUrl e a = Inr res"
  from handleFetchUrl_Inr [OF h] obtain r'
    where f: "fetch e (fu_url a) (fetchUrlOptions a) = Inr r'"
      and p: "processResponse e a r' = Inr res"
    by blast
  from f assms obtain r where "srv (fu_url a) = Inr r" "r' = r\<lparr>r_url := fu_url a\<rparr>"
    by (auto simp add: http_exchange_def redirect_option split: sum.splits)
  with processResponse_meta [OF p]
  show "res_url res = fu_url a" and "\<exists>r. srv (fu_url a) = Inr r \<and> res_status res = r_status r"
    by simp_all
next
  fix r t
  assume h: "srv (fu_url a) = Inr r \<and> fu_responseType a = Text \<and> r_text r = Inr t"
  with assms have "fetch e (fu_url a) (fetchUrlOptions a) = Inr (r\<lparr>r_url := fu_url a\<rparr>)"
    by (simp add: http_exchange_def redirect_option)
  from handleFetchUrl_response [OF this] h
  show "handleFetchUrl e a = Inr (metadata (r\<lparr>r_url := fu_url a\<rparr>) t)"
    by (simp add: processResponse_text)
qed

lemma extract_manual:
  assumes "fetch e = http_exchange srv limit" and "\<not> ex_followRedirects x"
  shows "(\<forall>res. handleExtractHtmlFragment e x = Inr res \<longrightarrow> fr_url res = ex_url x)
       \<and> (\<forall>r. srv (ex_url x) = Inr r \<and> 300 \<le> r_status r \<and> r_status r \<le> 399 \<longrightarrow>
            handleExtractHtmlFragment e x =
              Inl (''Error extracting HTML fragment: Failed to fetch URL: HTTP '' @
                   dec (r_status r) @ '' '' @ r_statusText r))"
proof (intro conjI allI impI)
  fix res assume h: "handleExtractHtmlFragment e x = Inr res"
  from handleExtract_Inr [OF h] obtain r'
    where f: "fetch e (ex_url x) (extractOptions x) = Inr r'"
      and p: "extractFromResponse e x r' = Inr res"
    by blast
  from f assms obtain r where "srv (ex_url x) = Inr r" "r' = r\<lparr>r_url := ex_url x\<rparr>"
    by (auto simp add: http_exchange_def redirect_option split: sum.splits)
  with extractFromResponse_meta [OF p] show "fr_url res = ex_url x"
    by simp
next
  fix r
  assume h: "srv (ex_url x) = Inr r \<and> 300 \<le> r_status r \<and> r_status r \<le> 399"
  with assms have f: "fetch e (ex_url x) (extractOptions x) = Inr (r\<lparr>r_url := ex_url x\<rparr>)"
    by (simp add: http_exchange_def redirect_option)
  from h have "\<not> ok (r\<lparr>r_url := ex_url x\<rparr>)"
    by (simp add: ok_def)
  from handleExtract_response [OF f] extractFromResponse_not_ok [OF this, of e x]
  show "handleExtractHtmlFragment e x =
      Inl (''Error extracting HTML fragment: Failed to fetch URL: HTTP '' @
           dec (r_status r) @ '' '' @ r_statusText r)"
    by simp
qed

text \<open>
  Claim C8 says, for fetch-url and extract-html-fragment, that with \<open>followRedirects\<close>
  true the redirects are followed and the result's \<open>url\<close> is the last URL reached, and
  that with \<open>followRedirects\<close> false a 3xx response is returned as it is, the result's
  \<open>url\<close> being the URL of the request. The handlers pass \<^verbatim>\<open>redirect: "follow"\<close> or
  \<^verbatim>\<open>"manual"\<close> by the argument and report \<^verbatim>\<open>response.url\<close>. With the exchange modelled
  as above: a result under \<open>followRedirects\<close> has as \<open>url\<close> the last URL of a chain of redirects that starts
  at the requested URL, and the status of the response there, which redirects no further.
  With \<open>followRedirects\<close> false every result has the requested URL as \<open>url\<close>; fetch-url
  returns the response of the requested URL with its status, a 3xx too, while
  extract-html-fragment, which takes no status outside 200 to 299, turns a 3xx into its
  error \<^verbatim>\<open>Failed to fetch URL: HTTP <status> <statusText>\<close> and returns no result.
\<close>

theorem redirect_policy:
  assumes "fetch e = http_exchange srv limit"
  shows "opt_redirect (fetchUrlOptions a) = Some (if fu_followRedirects a then Follow else Manual)
       \<and> opt_redirect (extractOptions x) = Some (if ex_followRedirects x then Follow else Manual)
       \<and> (fu_followRedirects a \<longrightarrow>
            (\<forall>res. handleFetchUrl e a = Inr res \<longrightarrow>
               (\<exists>us r. redirect_chain srv (fu_url a # us) \<and> length us \<le> limit \<and>
                  res_url res = last (fu_url a # us) \<and> srv (res_url res) = Inr r \<and>
                  redirect_target r = None \<and> res_status res = r_status r)))
       \<and> (\<not> fu_followRedirects a \<longrightarrow>
            (\<forall>res. handleFetchUrl e a = Inr res \<longrightarrow>
               res_url res = fu_url a \<and>
               (\<exists>r. srv (fu_url a) = Inr r \<and> res_status res = r_status r))
          \<and> (\<forall>r t. srv (fu_url a) = Inr r \<and> fu_responseType a = Text \<and> r_text r = Inr t \<longrightarrow>
               handleFetchUrl e a = Inr (metadata (r\<lparr>r_url := fu_url a\<rparr>) t)))
       \<and> (ex_followRedirects x \<longrightarrow>
            (\<forall>res. handleExtractHtmlFragment e x = Inr res \<longrightarrow>
               (\<exists>us r. redirect_chain srv (ex_url x # us) \<and> length us \<le> limit \<and>
                  fr_url res = last (ex_url x # us) \<and> srv (fr_url res) = Inr r \<and>
                  redirect_target r = None \<and> fr_status res = r_status r)))
       \<and> (\<not> ex_followRedirects x \<longrightarrow>
            (\<forall>res. handleExtractHtmlFragment e x = Inr res \<longrightarrow> fr_url res = ex_url x)
          \<and> (\<forall>r. srv (ex_url x) = Inr r \<and> 300 \<le> r_status r \<and> r_status r \<le> 399 \<longrightarrow>
               handleExtractHtmlFragment e x =
                 Inl (''Error extracting HTML fragment: Failed to fetch URL: HTTP '' @
                      dec (r_status r) @ '' '' @ r_statusText r)))"
proof (intro conjI)
  show "opt_redirect (fetchUrlOptions a) = Some (if fu_followRedirects a then Follow else Manual)"
    and "opt_redirect (extractOptions x) = Some (if ex_followRedirects x then Follow else Manual)"
    by (rule redirect_option)+
  show "fu_followRedirects a \<longrightarrow>
      (\<forall>res. handleFetchUrl e a = Inr res \<longrightarrow>
         (\<exists>us r. redirect_chain srv (fu_url a # us) \<and> length us \<le> limit \<and>
            res_url res = last (fu_url a # us) \<and> srv (res_url res) = Inr r \<and>
            redirect_target r = None \<and> res_status res = r_status r))"
    using fetch_url_followed [OF assms] by blast
  show "\<not> fu_followRedirects a \<longrightarrow>
      (\<forall>res. handleFetchUrl e a = Inr res \<longrightarrow>
         res_url res = fu_url a \<and>
         (\<exists>r. srv (fu_url a) = Inr r \<and> res_status res = r_status r))
      \<and> (\<forall>r t. srv (fu_url a) = Inr r \<and> fu_responseType a = Text \<and> r_text r = Inr t \<longrightarrow>
         handleFetchUrl e a = Inr (metadata (r\<lparr>r_url := fu_url a\<rparr>) t))"
    using fetch_url_manual [OF assms] by blast
  show "ex_followRedirects x \<longrightarrow>
      (\<forall>res. handleExtractHtmlFragment e x = Inr res \<longrightarrow>
         (\<exists>us r. redirect_chain srv (ex_url x # us) \<and> length us \<le> limit \<and>
            fr_url res = last (ex_url x # us) \<and> srv (fr_url res) = Inr r \<and>
            redirect_target r = None \<and> fr_status res = r_status r))"
    using extract_followed [OF assms] by blast
  show "\<not> ex_followRedirects x \<longrightarrow>
      (\<forall>res. handleExtractHtmlFragment e x = Inr res \<longrightarrow> fr_url res = ex_url x)
      \<and> (\<forall>r. srv (ex_url x) = Inr r \<and> 300 \<le> r_status r \<and> r_status r \<le> 399 \<longrightarrow>
         handleExtractHtmlFragment e x =
           Inl (''Error extracting HTML fragment: Failed to fetch URL: HTTP '' @
                dec (r_status r) @ '' '' @ r_statusText r))"
    using extract_manual [OF assms] by blast
qed

lemma dec_302: "dec 302 = ''302''"
  by (simp add: dec.simps digit_def)

lemmas test_redirect_defs = test_redirect_env_def http_exchange_def redirect_target_def
  fetchUrlOptions_def extractOptions_def truthy_number_def truthy_string_def

text \<open>The redirect route of the test server, followed and not.\<close>

theorem redirect_policy_witness:
  "fetch test_redirect_env = http_exchange test_server 20
   \<and> handleFetchUrl test_redirect_env (test_fetch_args ''http://localhost:3000/redirect'') =
       Inr \<lparr>res_status = 200, res_statusText = ''OK'',
            res_headers = [(''content-type'', ''text/html'')],
            res_url = ''http://localhost:3000/'', res_content = test_page,
            res_encoding = None, res_matchCount = None, res_contentType = None\<rparr>
   \<and> redirect_chain test_server [''http://localhost:3000/redirect'', ''http://localhost:3000/'']
   \<and> handleFetchUrl test_redirect_env
        ((test_fetch_args ''http://localhost:3000/redirect'')\<lparr>fu_followRedirects := False\<rparr>) =
       Inr \<lparr>res_status = 302, res_statusText = ''Found'',
            res_headers = [(''location'', ''http://localhost:3000/'')],
            res_url = ''http://localhost:3000/redirect'', res_content = [],
            res_encoding = None, res_matchCount = None, res_contentType = None\<rparr>
   \<and> handleExtractHtmlFragment test_redirect_env
        (test_extract_args ''http://localhost:3000/redirect'' ''h1'') =
       Inr \<lparr>fr_status = 200, fr_statusText = ''OK'', fr_url = ''http://localhost:3000/'',
            fr_selector = ''h1'', fr_matchCount = 1,
            fr_html = HtmlString ''<h1 id=top>Test Heading</h1>''\<rparr>"
proof -
  have f: "fetch test_redirect_env = http_exchange test_server 20"
    by (simp add: test_redirect_env_def test_env_def)
  have 1: "handleFetchUrl test_redirect_env (test_fetch_args ''http://localhost:3000/redirect'') =
       Inr \<lparr>res_status = 200, res_statusText = ''OK'',
            res_headers = [(''content-type'', ''text/html'')],
            res_url = ''http://localhost:3000/'', res_content = test_page,
            res_encoding = None, res_matchCount = None, res_contentType = None\<rparr>"
    by (simp add: handleFetchUrl_def processResponse_def metadata_def fromEntries_def
        test_redirect_defs test_defs eval_nat_numeral)
  have 2: "redirect_chain test_server [''http://localhost:3000/redirect'', ''http://localhost:3000/'']"
    by (simp add: redirect_target_def test_defs)
  have 3: "handleExtractHtmlFragment test_redirect_env
        (test_extract_args ''http://localhost:3000/redirect'' ''h1'') =
       Inr \<lparr>fr_status = 200, fr_statusText = ''OK'', fr_url = ''http://localhost:3000/'',
            fr_selector = ''h1'', fr_matchCount = 1,
            fr_html = HtmlString ''<h1 id=top>Test Heading</h1>''\<rparr>"
    by (simp add: handleExtractHtmlFragment_def extractFromResponse_def ok_def
        test_redirect_defs test_defs eval_nat_numeral)
  have 4: "handleFetchUrl test_redirect_env
        ((test_fetch_args ''http://localhost:3000/redirect'')\<lparr>fu_followRedirects := False\<rparr>) =
       Inr \<lparr>res_status = 302, res_statusText = ''Found'',
            res_headers = [(''location'', ''http://localhost:3000/'')],
            res_url = ''http://localhost:3000/redirect'', res_content = [],
            res_encoding = None, res_matchCount = None, res_contentType = None\<rparr>"
    using redirect_policy [OF f, of
        "(test_fetch_args ''http://localhost:3000/redirect'')\<lparr>fu_followRedirects := False\<rparr>"
        "test_extract_args ''http://localhost:3000/redirect'' ''h1''"]
    by (simp add: metadata_def fromEntries_def test_defs)
  from f 1 2 3 4 show ?thesis by simp
qed

text \<open>The claim as stated fails for extract-html-fragment: with \<open>followRedirects\<close> false
  the 302 of the redirect route is no result with a \<open>url\<close> but an error.\<close>

theorem extract_manual_redirect_counterexample:
  "handleExtractHtmlFragment test_redirect_env
     ((test_extract_args ''http://localhost:3000/redirect'' ''h1'')\<lparr>ex_followRedirects := False\<rparr>) =
     Inl ''Error extracting HTML fragment: Failed to fetch URL: HTTP 302 Found''"
  by (simp add: handleExtractHtmlFragment_def extractFromResponse_def ok_def dec_302
      test_redirect_defs test_defs)

subsection \<open>The json response type\<close>

text \<open>
  Claim C7 is about \<^verbatim>\<open>JSON.parse\<close> and \<^verbatim>\<open>JSON.stringify\<close> of the JavaScript runtime:
  that parsing the pretty-printed text of a parsed value gives the value again. The
  handler only composes the two, and its values are those of the runtime, with numbers
  that are IEEE doubles; the claim is not stated here. What the handler does with them is
  this: the content is \<^verbatim>\<open>JSON.stringify\<close> of what \<^verbatim>\<open>response.json()\<close> returned, and an
  error of \<^verbatim>\<open>response.json()\<close> becomes the error result with the parser's message.
\<close>

lemma json_response:
  assumes "fetch e (fu_url a) (fetchUrlOptions a) = Inr r" and "fu_responseType a = Json"
  shows "handleFetchUrl e a =
     (case r_json r of
        Inl m \<Rightarrow> Inl (''Error fetching URL: Failed to parse response as JSON: '' @ m)
      | Inr v \<Rightarrow> Inr (metadata r (JSON_stringify e v)))"
  using assms by (simp add: handleFetchUrl_def processResponse_def split: sum.splits)

end
